theory Spec2Isabelle
  imports Main "HOL-Library.Word"
begin

section \<open>Data model\<close>

text \<open>
  Go's \<open>int\<close> (the type of a configuration's version) is a 64-bit two's complement
  integer on the 64-bit platforms: \<open>+\<close> wraps around, \<open>sint\<close> reads the signed value.
  A \<open>[]byte\<close> is a list of 8-bit words.
\<close>

type_synonym goint = "64 word"
type_synonym bytes = "8 word list"

text \<open>
  Go's \<open>error\<close> values. \<open>Err\<close> is an error made by a collaborator (package \<open>os\<close>, the
  YAML codec, \<open>deepcopy\<close>, a caller's delta function); the other constructors are the
  \<open>fmt.Errorf\<close> calls of the package, one constructor for each format string, carrying
  the format's arguments.
\<close>

datatype error =
    Err string
  | EmptyConfigMissing
  | FilePathMissing
  | InitialUpdateFailed error
  | StatConfigFailed string error
  | ReadFailed string error
  | UnmarshalFailed string error
  | VersionMismatch goint goint
  | MarshalFailed error
  | WriteFailed string error
  | StatFailed string error

text \<open>
  \<open>os.FileInfo\<close> is an interface; the value \<open>os.Stat\<close> returns has the dynamic type
  \<open>*os.fileStat\<close>, a pointer to a structure that \<open>os.Stat\<close> allocates at each call.
  \<open>Ptr\<close> is the address of that structure, \<open>Name\<close>, \<open>Size\<close> and \<open>ModTime\<close> are what
  the methods of the same names return. A nil \<open>os.FileInfo\<close> is \<open>None\<close>.
\<close>

record FileInfo =
  Ptr :: nat
  Name :: string
  Size :: nat
  ModTime :: nat

text \<open>
  Go's \<open>==\<close> on two interface values: both nil, or the same dynamic type and equal
  dynamic values. The dynamic values here are pointers, and two pointers are equal when
  they point to the same variable.
\<close>

fun FileInfo_eq :: "FileInfo option \<Rightarrow> FileInfo option \<Rightarrow> bool" where
  "FileInfo_eq None None = True"
| "FileInfo_eq (Some a) (Some b) = (Ptr a = Ptr b)"
| "FileInfo_eq _ _ = False"

subsection \<open>The file system\<close>

text \<open>
  The file system is a collaborator. A file has a content and a modification time.
  \<open>faults\<close> is a schedule of injected failures, one entry consumed by each call of a
  primitive: \<open>Some e\<close> makes the call fail with \<open>e\<close> and without effect, \<open>None\<close> (or an
  exhausted schedule) lets it run. \<open>now\<close> is the time a write stamps on a file,
  \<open>next_ptr\<close> the next free address for an \<open>os.fileStat\<close>, and \<open>oplog\<close> records the
  primitives called, in order.
\<close>

record fnode =
  content :: bytes
  mtime :: nat

datatype fs_op = OpStat string | OpReadFile string | OpWriteFile string bytes

record fsys =
  files :: "string \<rightharpoonup> fnode"
  now :: nat
  next_ptr :: nat
  faults :: "error option list"
  oplog :: "fs_op list"

definition take_fault :: "fsys \<Rightarrow> error option \<times> fsys" where
  "take_fault fs =
     (case faults fs of [] \<Rightarrow> (None, fs) | f # rest \<Rightarrow> (f, fs\<lparr>faults := rest\<rparr>))"

definition record_op :: "fs_op \<Rightarrow> fsys \<Rightarrow> fsys" where
  "record_op op fs = fs\<lparr>oplog := oplog fs @ [op]\<rparr>"

text \<open>\<open>filepath.Base\<close> for a slash-separated path without trailing slash.\<close>

definition basename :: "string \<Rightarrow> string" where
  "basename p = rev (takeWhile (\<lambda>c. c \<noteq> CHR ''/'') (rev p))"

definition os_Stat :: "fsys \<Rightarrow> string \<Rightarrow> (error + FileInfo) \<times> fsys" where
  "os_Stat fs p =
     (let (flt, fs1) = take_fault (record_op (OpStat p) fs) in
      case flt of
        Some e \<Rightarrow> (Inl e, fs1)
      | None \<Rightarrow>
          (case files fs1 p of
             None \<Rightarrow> (Inl (Err ''no such file or directory''), fs1)
           | Some f \<Rightarrow>
               (Inr \<lparr>Ptr = next_ptr fs1, Name = basename p,
                      Size = length (content f), ModTime = mtime f\<rparr>,
                fs1\<lparr>next_ptr := Suc (next_ptr fs1)\<rparr>)))"

definition ioutil_ReadFile :: "fsys \<Rightarrow> string \<Rightarrow> (error + bytes) \<times> fsys" where
  "ioutil_ReadFile fs p =
     (let (flt, fs1) = take_fault (record_op (OpReadFile p) fs) in
      case flt of
        Some e \<Rightarrow> (Inl e, fs1)
      | None \<Rightarrow>
          (case files fs1 p of
             None \<Rightarrow> (Inl (Err ''no such file or directory''), fs1)
           | Some f \<Rightarrow> (Inr (content f), fs1)))"

definition ioutil_WriteFile :: "fsys \<Rightarrow> string \<Rightarrow> bytes \<Rightarrow> error option \<times> fsys" where
  "ioutil_WriteFile fs p bs =
     (let (flt, fs1) = take_fault (record_op (OpWriteFile p bs) fs) in
      case flt of
        Some e \<Rightarrow> (Some e, fs1)
      | None \<Rightarrow> (None, fs1\<lparr>files := (files fs1)(p \<mapsto> \<lparr>content = bs, mtime = now fs1\<rparr>)\<rparr>))"

subsection \<open>Configurations and the collaborators\<close>

text \<open>
  \<open>Config\<close> is an interface with the methods \<open>GetVersion\<close>, \<open>SetVersion\<close> and
  \<open>ApplyDefaults\<close>; a configuration is a pointer to a structure of the caller's type
  \<open>'c\<close>. The methods are passed as a dictionary, together with the two library calls
  that work on configurations: \<open>yaml.Marshal\<close>/\<open>yaml.Unmarshal\<close> and \<open>deepcopy.Copy\<close>.
  A method that updates the structure in place returns the updated structure.
  \<open>yaml_Unmarshal bs c\<close> decodes \<open>bs\<close> into the structure \<open>c\<close>; \<open>deepcopy_Copy dst src\<close>
  copies \<open>src\<close> (nil is \<open>None\<close>) into \<open>dst\<close>; both return the structure as they leave it,
  also when they fail.
\<close>

record 'c collab =
  GetVersion :: "'c \<Rightarrow> goint"
  SetVersion :: "goint \<Rightarrow> 'c \<Rightarrow> 'c"
  ApplyDefaults :: "'c \<Rightarrow> 'c"
  yaml_Marshal :: "'c \<Rightarrow> error + bytes"
  yaml_Unmarshal :: "bytes \<Rightarrow> 'c \<Rightarrow> 'c \<times> error option"
  deepcopy_Copy :: "'c \<Rightarrow> 'c option \<Rightarrow> 'c \<times> error option"

text \<open>
  The \<open>Manager\<close>. \<open>EmptyConfig\<close> is a function value (nil is \<open>None\<close>) that returns a
  pointer to a new structure at each call; \<open>cfg\<close> is the authoritative configuration
  (nil is \<open>None\<close>) and \<open>fileInfo\<close> the fingerprint. The poll intervals are durations in
  nanoseconds. The HTTP fields and the two channels have no part in what follows.
\<close>

record 'c Manager =
  EmptyConfig :: "(unit \<Rightarrow> 'c) option"
  FilePath :: string
  FilePollInterval :: int
  HttpPollInterval :: int
  cfg :: "'c option"
  fileInfo :: "FileInfo option"

section \<open>Disk synchronisation\<close>

text \<open>
  \<open>writeToDisk\<close>: encode, write the file, take a new fingerprint. The assignment
  \<open>m.fileInfo, err = os.Stat(m.FilePath)\<close> stores what \<open>os.Stat\<close> returns also when it
  fails, and that is a nil \<open>FileInfo\<close>.
\<close>

definition writeToDisk ::
  "'c collab \<Rightarrow> 'c Manager \<Rightarrow> fsys \<Rightarrow> 'c \<Rightarrow> error option \<times> 'c Manager \<times> fsys" where
  "writeToDisk cl m fs c =
     (case yaml_Marshal cl c of
        Inl e \<Rightarrow> (Some (MarshalFailed e), m, fs)
      | Inr bs \<Rightarrow>
          (let (werr, fs1) = ioutil_WriteFile fs (FilePath m) bs in
           case werr of
             Some e \<Rightarrow> (Some (WriteFailed (FilePath m) e), m, fs1)
           | None \<Rightarrow>
               (let (st, fs2) = os_Stat fs1 (FilePath m) in
                case st of
                  Inl e \<Rightarrow> (Some (StatFailed (FilePath m) e), m\<lparr>fileInfo := None\<rparr>, fs2)
                | Inr fi \<Rightarrow> (None, m\<lparr>fileInfo := Some fi\<rparr>, fs2))))"

text \<open>
  \<open>reloadFromDisk\<close> returns \<open>(changed, err)\<close> with the manager and the file system as it
  leaves them. Calling the nil function \<open>m.EmptyConfig\<close> panics: the result is \<open>None\<close>.
  \<open>reflect.DeepEqual(m.cfg, cfg)\<close> on two pointers to structures of the type \<open>'c\<close> is
  the equality of the structures; a nil \<open>m.cfg\<close> is equal to no pointer.
\<close>

definition reloadFromDisk ::
  "'c collab \<Rightarrow> 'c Manager \<Rightarrow> fsys \<Rightarrow> ((bool \<times> error option) \<times> 'c Manager \<times> fsys) option" where
  "reloadFromDisk cl m fs =
     (case EmptyConfig m of
        None \<Rightarrow> None
      | Some mk \<Rightarrow> Some
          (let c0 = mk ();
               (st, fs1) = os_Stat fs (FilePath m) in
           case st of
             Inl e \<Rightarrow> ((False, Some (StatConfigFailed (FilePath m) e)), m, fs1)
           | Inr fi \<Rightarrow>
               if FileInfo_eq (fileInfo m) (Some fi) then ((False, None), m, fs1)
               else
                 (let (rd, fs2) = ioutil_ReadFile fs1 (FilePath m) in
                  case rd of
                    Inl e \<Rightarrow> ((False, Some (ReadFailed (FilePath m) e)), m, fs2)
                  | Inr bs \<Rightarrow>
                      (let (c1, uerr) = yaml_Unmarshal cl bs c0 in
                       case uerr of
                         Some e \<Rightarrow> ((False, Some (UnmarshalFailed (FilePath m) e)), m, fs2)
                       | None \<Rightarrow>
                           (case cfg m of
                              Some cur \<Rightarrow>
                                if GetVersion cl cur \<noteq> GetVersion cl c1 then
                                  (let (werr, m1, fs3) = writeToDisk cl m fs2 cur in
                                   ((False, Some (VersionMismatch (GetVersion cl cur)
                                                    (GetVersion cl c1))), m1, fs3))
                                else if cur = c1 then ((False, None), m, fs2)
                                else ((True, None), m\<lparr>cfg := Some c1, fileInfo := Some fi\<rparr>, fs2)
                            | None \<Rightarrow>
                                ((True, None), m\<lparr>cfg := Some c1, fileInfo := Some fi\<rparr>, fs2))))))"

definition loadFromDisk ::
  "'c collab \<Rightarrow> 'c Manager \<Rightarrow> fsys \<Rightarrow> (error option \<times> 'c Manager \<times> fsys) option" where
  "loadFromDisk cl m fs = map_option (\<lambda>((changed, err), m1, fs1). (err, m1, fs1)) (reloadFromDisk cl m fs)"

text \<open>
  \<open>saveToDiskAndUpdate\<close> changes the candidate \<open>updated\<close> and the authoritative
  configuration in place, through their pointers. The model returns \<open>(changed, err)\<close>,
  the manager, the file system and the candidate as the call leaves it. The candidate is
  an object of its own: every caller passes a structure that \<open>m.EmptyConfig()\<close> has
  just made.
\<close>

definition saveToDiskAndUpdate ::
  "'c collab \<Rightarrow> 'c Manager \<Rightarrow> fsys \<Rightarrow> 'c \<Rightarrow> (bool \<times> error option) \<times> 'c Manager \<times> fsys \<times> 'c" where
  "saveToDiskAndUpdate cl m fs updated =
     (let u1 = ApplyDefaults cl updated;
          currentVersion = (case cfg m of None \<Rightarrow> 0 | Some cur \<Rightarrow> GetVersion cl cur);
          m1 = m\<lparr>cfg := map_option (SetVersion cl 0) (cfg m)\<rparr>;
          u2 = SetVersion cl 0 u1 in
      if cfg m1 = Some u2 then
        ((False, None), m1\<lparr>cfg := map_option (SetVersion cl currentVersion) (cfg m1)\<rparr>, fs, u2)
      else
        (let u3 = SetVersion cl (currentVersion + 1) u2;
             (werr, m2, fs1) = writeToDisk cl m1 fs u3 in
         case werr of
           Some e \<Rightarrow> ((False, Some e), m2, fs1, u3)
         | None \<Rightarrow> ((True, None), m2\<lparr>cfg := Some u3\<rparr>, fs1, u3)))"

text \<open>
  \<open>hasChangedOnDisk\<close> compares the size and the modification time of two fingerprints.
  Nothing calls it. With a nil \<open>m.fileInfo\<close> the call \<open>m.fileInfo.Name()\<close> panics
  (\<open>None\<close>).
\<close>

definition hasChangedOnDisk :: "'c Manager \<Rightarrow> fsys \<Rightarrow> (bool \<times> fsys) option" where
  "hasChangedOnDisk m fs =
     (case fileInfo m of
        None \<Rightarrow> None
      | Some old \<Rightarrow> Some
          (let (st, fs1) = os_Stat fs (Name old) in
           case st of
             Inl e \<Rightarrow> (False, fs1)
           | Inr nextFileInfo \<Rightarrow>
               (Size nextFileInfo \<noteq> Size old \<or> ModTime nextFileInfo \<noteq> ModTime old, fs1)))"

section \<open>The manager\<close>

text \<open>
  \<open>copy\<close>: a new structure from the factory, filled by \<open>deepcopy.Copy\<close>. It returns the
  structure and the error of \<open>deepcopy.Copy\<close>; \<open>None\<close> is the panic of a nil factory.
\<close>

definition copy :: "'c collab \<Rightarrow> 'c Manager \<Rightarrow> 'c option \<Rightarrow> ('c \<times> error option) option" where
  "copy cl m orig =
     (case EmptyConfig m of
        None \<Rightarrow> None
      | Some mk \<Rightarrow> Some (deepcopy_Copy cl (mk ()) orig))"

text \<open>
  The defaults that \<open>Start\<close> gives the two poll intervals (one second and one minute,
  in nanoseconds) when they are zero.
\<close>

definition defaultPollIntervals :: "'c Manager \<Rightarrow> 'c Manager" where
  "defaultPollIntervals m =
     (let ma = (if FilePollInterval m = 0 then m\<lparr>FilePollInterval := 1000000000\<rparr> else m) in
      if HttpPollInterval ma = 0 then ma\<lparr>HttpPollInterval := 60000000000\<rparr> else ma)"

text \<open>
  \<open>Start\<close>, up to the point where it launches the goroutine of the update loop (whose
  first action is to send \<open>m.cfg\<close> on the publication channel). It returns the error,
  the manager and the file system.
\<close>

definition Start ::
  "'c collab \<Rightarrow> 'c Manager \<Rightarrow> fsys \<Rightarrow> (error option \<times> 'c Manager \<times> fsys) option" where
  "Start cl m0 fs0 =
     (case EmptyConfig m0 of
        None \<Rightarrow> Some (Some EmptyConfigMissing, m0, fs0)
      | Some mk \<Rightarrow>
          if FilePath m0 = [] then Some (Some FilePathMissing, m0, fs0)
          else
            (case loadFromDisk cl (defaultPollIntervals m0) fs0 of
               None \<Rightarrow> None
             | Some (lerr, m1, fs1) \<Rightarrow>
                 (case lerr of
                    Some e \<Rightarrow>
                      (let c = ApplyDefaults cl (mk ());
                           ((changed, serr), m2, fs2, c') = saveToDiskAndUpdate cl m1 fs1 c in
                       Some (serr, m2, fs2))
                  | None \<Rightarrow>
                      (case copy cl m1 (cfg m1) of
                         None \<Rightarrow> None
                       | Some (copied, cerr) \<Rightarrow>
                           (case cerr of
                              Some e \<Rightarrow> Some (Some (InitialUpdateFailed e), m1, fs1)
                            | None \<Rightarrow>
                                (let ((changed, serr), m2, fs2, c') =
                                       saveToDiskAndUpdate cl m1 fs1 copied in
                                 case serr of
                                   Some e \<Rightarrow> Some (Some (InitialUpdateFailed e), m2, fs2)
                                 | None \<Rightarrow> Some (None, m2, fs2)))))))"

text \<open>
  One iteration of the loop of \<open>processUpdates\<close>, for the event that its \<open>select\<close>
  receives: a delta from \<open>Update\<close> (the delta function changes the structure it is given
  in place and returns an error or nil), the tick of the file poll timer, or the tick of
  the HTTP timer (which only sets the next deadline). What an iteration sends out:
  \<open>reply\<close> is the value sent on the delta's \<open>errCh\<close> (\<open>Some None\<close> is a nil error),
  \<open>published\<close> the value of \<open>m.cfg\<close> sent on \<open>nextCfgCh\<close>, \<open>logged\<close> the error that the
  file poll branch logs.
\<close>

datatype 'c event = Delta "'c \<Rightarrow> 'c \<times> error option" | FilePoll | HttpPoll

record 'c sent =
  reply :: "error option option"
  published :: "'c option option"
  logged :: "error option"

definition processUpdates_step ::
  "'c collab \<Rightarrow> 'c Manager \<Rightarrow> fsys \<Rightarrow> 'c event \<Rightarrow> ('c sent \<times> 'c Manager \<times> fsys) option" where
  "processUpdates_step cl m fs ev =
     (case ev of
        Delta deltaFn \<Rightarrow>
          (case copy cl m (cfg m) of
             None \<Rightarrow> None
           | Some (updated, cerr) \<Rightarrow>
               (let (updated', derr) = deltaFn updated in
                case derr of
                  Some e \<Rightarrow> Some (\<lparr>reply = Some (Some e), published = None, logged = None\<rparr>, m, fs)
                | None \<Rightarrow>
                    (let ((changed, serr), m1, fs1, u) = saveToDiskAndUpdate cl m fs updated' in
                     case serr of
                       Some e \<Rightarrow>
                         Some (\<lparr>reply = Some (Some e), published = None, logged = None\<rparr>, m1, fs1)
                     | None \<Rightarrow>
                         Some (\<lparr>reply = Some None,
                                published = (if changed then Some (cfg m1) else None),
                                logged = None\<rparr>, m1, fs1))))
      | FilePoll \<Rightarrow>
          (case reloadFromDisk cl m fs of
             None \<Rightarrow> None
           | Some ((changed, rerr), m1, fs1) \<Rightarrow>
               (case rerr of
                  Some e \<Rightarrow> Some (\<lparr>reply = None, published = None, logged = Some e\<rparr>, m1, fs1)
                | None \<Rightarrow>
                    Some (\<lparr>reply = None,
                           published = (if changed then Some (cfg m1) else None),
                           logged = None\<rparr>, m1, fs1)))
      | HttpPoll \<Rightarrow> Some (\<lparr>reply = None, published = None, logged = None\<rparr>, m, fs))"

section \<open>The configuration type of the package's test\<close>

text \<open>
  \<open>TestCfg\<close> and \<open>Nested\<close> are the configuration of \<open>TestNormal\<close>, with its methods.
  They are the concrete inputs of the examples below.
\<close>

record Nested =
  S :: string
  I :: goint

record TestCfg =
  Version :: goint
  N :: "Nested option"

definition FIXED_I :: goint where
  "FIXED_I = 55"

definition TestCfg_GetVersion :: "TestCfg \<Rightarrow> goint" where
  "TestCfg_GetVersion c = Version c"

definition TestCfg_SetVersion :: "goint \<Rightarrow> TestCfg \<Rightarrow> TestCfg" where
  "TestCfg_SetVersion version c = c\<lparr>Version := version\<rparr>"

definition TestCfg_ApplyDefaults :: "TestCfg \<Rightarrow> TestCfg" where
  "TestCfg_ApplyDefaults c =
     (let n = (case N c of None \<Rightarrow> \<lparr>S = [], I = 0\<rparr> | Some n0 \<Rightarrow> n0) in
      c\<lparr>N := Some (if I n = 0 then n\<lparr>I := FIXED_I\<rparr> else n)\<rparr>)"

definition test_EmptyConfig :: "unit \<Rightarrow> TestCfg" where
  "test_EmptyConfig u = \<lparr>Version = 0, N = None\<rparr>"

text \<open>
  The YAML codec and \<open>deepcopy\<close> are libraries outside the repository. In the examples
  a byte format stands for YAML: the version in one byte, then, for a configuration
  with an \<open>N\<close>, \<open>I\<close> in one byte and the bytes of \<open>S\<close>. An empty document does not
  decode. \<open>test_Copy\<close> makes the destination equal to the source and refuses a nil
  source; \<open>failing_Copy\<close> is a copy that fails and leaves the destination as it was.
\<close>

definition test_Marshal :: "TestCfg \<Rightarrow> error + bytes" where
  "test_Marshal c =
     Inr (ucast (Version c) #
          (case N c of None \<Rightarrow> [] | Some n \<Rightarrow> ucast (I n) # map of_char (S n)))"

definition test_Unmarshal :: "bytes \<Rightarrow> TestCfg \<Rightarrow> TestCfg \<times> error option" where
  "test_Unmarshal bs c =
     (case bs of
        [] \<Rightarrow> (c, Some (Err ''EOF''))
      | v # rest \<Rightarrow>
          (c\<lparr>Version := ucast v,
             N := (case rest of
                     [] \<Rightarrow> N c
                   | i # s \<Rightarrow> Some \<lparr>S = map (\<lambda>b. char_of (unat b)) s, I = ucast i\<rparr>)\<rparr>,
           None))"

definition test_Copy :: "TestCfg \<Rightarrow> TestCfg option \<Rightarrow> TestCfg \<times> error option" where
  "test_Copy dst src =
     (case src of None \<Rightarrow> (dst, Some (Err ''src cannot be nil'')) | Some s \<Rightarrow> (s, None))"

definition failing_Copy :: "TestCfg \<Rightarrow> TestCfg option \<Rightarrow> TestCfg \<times> error option" where
  "failing_Copy dst src = (dst, Some (Err ''Unable to marshal src''))"

definition test_collab :: "TestCfg collab" where
  "test_collab =
     \<lparr>GetVersion = TestCfg_GetVersion, SetVersion = TestCfg_SetVersion,
      ApplyDefaults = TestCfg_ApplyDefaults, yaml_Marshal = test_Marshal,
      yaml_Unmarshal = test_Unmarshal, deepcopy_Copy = test_Copy\<rparr>"

definition failing_copy_collab :: "TestCfg collab" where
  "failing_copy_collab = test_collab\<lparr>deepcopy_Copy := failing_Copy\<rparr>"

text \<open>
  A manager as \<open>TestNormal\<close> builds it (a poll interval of 100 ms), before \<open>Start\<close>; and
  a manager that holds \<open>c\<close> as its authoritative configuration, with the fingerprint
  \<open>fi\<close>.
\<close>

definition test_Manager :: "TestCfg Manager" where
  "test_Manager =
     \<lparr>EmptyConfig = Some test_EmptyConfig, FilePath = ''yamlconf_test'',
      FilePollInterval = 100000000, HttpPollInterval = 0, cfg = None, fileInfo = None\<rparr>"

definition running_Manager :: "TestCfg \<Rightarrow> FileInfo option \<Rightarrow> TestCfg Manager" where
  "running_Manager c fi =
     test_Manager\<lparr>HttpPollInterval := 60000000000, cfg := Some c, fileInfo := fi\<rparr>"

text \<open>
  A file system at time 7 whose only file, if any, is the configuration file \<open>f\<close>;
  \<open>p\<close> is the next free address, \<open>fl\<close> the schedule of injected failures and \<open>ops\<close>
  the primitives called so far.
\<close>

definition test_fs :: "fnode option \<Rightarrow> nat \<Rightarrow> error option list \<Rightarrow> fs_op list \<Rightarrow> fsys" where
  "test_fs f p fl ops =
     \<lparr>files = (case f of None \<Rightarrow> Map.empty | Some n \<Rightarrow> [''yamlconf_test'' \<mapsto> n]),
      now = 7, next_ptr = p, faults = fl, oplog = ops\<rparr>"

text \<open>
  The fingerprint of the configuration file that \<open>os.Stat\<close> allocates at the address
  \<open>a\<close>, for a file of the size \<open>sz\<close> modified at the time \<open>t\<close>; and a configuration
  file with the content \<open>bs\<close>, modified at the time \<open>t\<close>.
\<close>

definition fingerprint :: "nat \<Rightarrow> nat \<Rightarrow> nat \<Rightarrow> FileInfo" where
  "fingerprint a sz t = \<lparr>Ptr = a, Name = ''yamlconf_test'', Size = sz, ModTime = t\<rparr>"

definition on_disk :: "bytes \<Rightarrow> nat \<Rightarrow> fnode option" where
  "on_disk bs t = Some \<lparr>content = bs, mtime = t\<rparr>"

text \<open>A configuration with version \<open>v\<close> and an \<open>N\<close> that holds \<open>s\<close> and \<open>i\<close>.\<close>

definition cfg_of :: "goint \<Rightarrow> string \<Rightarrow> goint \<Rightarrow> TestCfg" where
  "cfg_of v s i = \<lparr>Version = v, N = Some \<lparr>S = s, I = i\<rparr>\<rparr>"

text \<open>
  Two delta functions: one changes the structure it is given and then fails; the other
  sets \<open>N.I\<close> to 4 where there is an \<open>N\<close>.
\<close>

definition failing_delta :: "TestCfg \<Rightarrow> TestCfg \<times> error option" where
  "failing_delta c = (c\<lparr>N := None\<rparr>, Some (Err ''delta failed''))"

definition set_I_delta :: "TestCfg \<Rightarrow> TestCfg \<times> error option" where
  "set_I_delta c = (c\<lparr>N := map_option (\<lambda>n. n\<lparr>I := 4\<rparr>) (N c)\<rparr>, None)"

section \<open>Unfolding the model\<close>

lemmas fs_defs = take_fault_def record_op_def os_Stat_def ioutil_ReadFile_def
  ioutil_WriteFile_def basename_def

lemmas test_defs = FIXED_I_def TestCfg_GetVersion_def TestCfg_SetVersion_def
  TestCfg_ApplyDefaults_def test_EmptyConfig_def test_Marshal_def test_Unmarshal_def
  test_Copy_def failing_Copy_def test_collab_def failing_copy_collab_def test_Manager_def
  running_Manager_def test_fs_def cfg_of_def fingerprint_def on_disk_def failing_delta_def
  set_I_delta_def

section \<open>The file system primitives and \<open>writeToDisk\<close>\<close>

lemma os_Stat_files: "files (snd (os_Stat fs p)) = files fs"
  by (simp add: fs_defs split: list.splits option.splits)

lemma os_Stat_fresh: "os_Stat fs p = (Inr fi, fs1) \<Longrightarrow> Ptr fi = next_ptr fs"
  by (auto simp: fs_defs split: list.splits option.splits)

lemma WriteFile_written:
  "fst (ioutil_WriteFile fs p bs) = None \<Longrightarrow>
   files (snd (ioutil_WriteFile fs p bs)) p = Some \<lparr>content = bs, mtime = now fs\<rparr>"
  by (auto simp: fs_defs split: list.splits option.splits)

lemma WriteFile_failed:
  "fst (ioutil_WriteFile fs p bs) = Some e \<Longrightarrow> files (snd (ioutil_WriteFile fs p bs)) = files fs"
  by (auto simp: fs_defs split: list.splits option.splits)

text \<open>\<open>writeToDisk\<close> never touches \<open>m.cfg\<close>, and does not read it.\<close>

lemma writeToDisk_cfg:
  "writeToDisk cl (m\<lparr>cfg := x\<rparr>) fs c =
     (case writeToDisk cl m fs c of (e, m', fs') \<Rightarrow> (e, m'\<lparr>cfg := x\<rparr>, fs'))"
  by (simp add: writeToDisk_def split: sum.splits prod.splits option.splits)

lemma writeToDisk_keeps_cfg: "cfg (fst (snd (writeToDisk cl m fs c))) = cfg m"
  by (simp add: writeToDisk_def split: sum.splits prod.splits option.splits)

text \<open>When the encoding and the write succeed, the file holds the encoding.\<close>

lemma writeToDisk_written:
  assumes "yaml_Marshal cl c = Inr out"
      and "fst (ioutil_WriteFile fs (FilePath m) out) = None"
  shows "files (snd (snd (writeToDisk cl m fs c))) (FilePath m)
           = Some \<lparr>content = out, mtime = now fs\<rparr>"
proof -
  obtain fs1 where w: "ioutil_WriteFile fs (FilePath m) out = (None, fs1)"
    using assms(2) by (cases "ioutil_WriteFile fs (FilePath m) out") simp
  have f1: "files fs1 (FilePath m) = Some \<lparr>content = out, mtime = now fs\<rparr>"
    using WriteFile_written [OF assms(2)] w by simp
  obtain st fs2 where s: "os_Stat fs1 (FilePath m) = (st, fs2)"
    by (cases "os_Stat fs1 (FilePath m)")
  have "files fs2 = files fs1"
    using os_Stat_files [of fs1 "FilePath m"] s by simp
  with f1 assms(1) w s show ?thesis
    by (simp add: writeToDisk_def split: sum.splits)
qed

lemma writeToDisk_ok:
  assumes "writeToDisk cl m fs c = (None, m2, fs2)"
  shows "\<exists>out. yaml_Marshal cl c = Inr out
           \<and> files fs2 (FilePath m) = Some \<lparr>content = out, mtime = now fs\<rparr>"
proof (cases "yaml_Marshal cl c")
  case (Inl e)
  with assms show ?thesis by (simp add: writeToDisk_def)
next
  case (Inr out)
  have "fst (ioutil_WriteFile fs (FilePath m) out) = None"
    using assms Inr
    by (cases "ioutil_WriteFile fs (FilePath m) out")
       (auto simp: writeToDisk_def split: option.splits)
  from writeToDisk_written [OF Inr this] assms Inr show ?thesis
    by simp
qed

text \<open>
  The three ways \<open>writeToDisk\<close> fails: the encoding fails and nothing is called; the
  write fails and the files are as they were; or the file is written and the \<open>os.Stat\<close>
  after it fails.
\<close>

lemma writeToDisk_error_cases:
  assumes "writeToDisk cl m fs c = (Some we, m', fs')"
  shows "(\<exists>e. we = MarshalFailed e \<and> fs' = fs)
       \<or> (\<exists>e. we = WriteFailed (FilePath m) e \<and> files fs' = files fs)
       \<or> (\<exists>e. we = StatFailed (FilePath m) e)"
proof (cases "yaml_Marshal cl c")
  case (Inl e)
  with assms show ?thesis by (auto simp: writeToDisk_def)
next
  case (Inr out)
  obtain werr fs1 where w: "ioutil_WriteFile fs (FilePath m) out = (werr, fs1)"
    by (cases "ioutil_WriteFile fs (FilePath m) out")
  show ?thesis
  proof (cases werr)
    case (Some e)
    have "files fs1 = files fs"
      using WriteFile_failed [of fs "FilePath m" out e] w Some by simp
    with assms Inr w Some show ?thesis by (auto simp: writeToDisk_def)
  next
    case None
    obtain st fs2 where s: "os_Stat fs1 (FilePath m) = (st, fs2)"
      by (cases "os_Stat fs1 (FilePath m)")
    with assms Inr w None show ?thesis
      by (cases st) (auto simp: writeToDisk_def)
  qed
qed

section \<open>Loading from disk\<close>

text \<open>
  What \<open>reloadFromDisk\<close> does once it has decoded a configuration \<open>c1\<close> from the file:
  the fingerprint check did not stop it, the read and the decoding succeeded.
\<close>

lemma reloadFromDisk_decoded:
  assumes "EmptyConfig m = Some mk"
      and "os_Stat fs (FilePath m) = (Inr fi, fs1)"
      and "\<not> FileInfo_eq (fileInfo m) (Some fi)"
      and "ioutil_ReadFile fs1 (FilePath m) = (Inr bs, fs2)"
      and "yaml_Unmarshal cl bs (mk ()) = (c1, None)"
  shows "reloadFromDisk cl m fs = Some
           (case cfg m of
              Some cur \<Rightarrow>
                if GetVersion cl cur \<noteq> GetVersion cl c1 then
                  ((False, Some (VersionMismatch (GetVersion cl cur) (GetVersion cl c1))),
                   snd (writeToDisk cl m fs2 cur))
                else if cur = c1 then ((False, None), m, fs2)
                else ((True, None), m\<lparr>cfg := Some c1, fileInfo := Some fi\<rparr>, fs2)
            | None \<Rightarrow> ((True, None), m\<lparr>cfg := Some c1, fileInfo := Some fi\<rparr>, fs2))"
  using assms by (simp add: reloadFromDisk_def split: option.splits prod.splits)

text \<open>
  Claim C1, as the code has it. A disk load that decodes a configuration whose version
  differs from the version of the authoritative configuration \<open>cur\<close> is rejected: it
  returns \<open>changed = false\<close> and the version-mismatch error that names the expected
  version (of \<open>cur\<close>) and the found one (of the decoded configuration), and \<open>m.cfg\<close> is
  still \<open>cur\<close>. The load attempts the write-back: its effect on the manager and on the
  file system is that of the call \<open>writeToDisk(m.cfg)\<close>, whose result it drops, and the
  file holds the encoding of \<open>cur\<close> afterwards when the encoding and the write
  succeed.
\<close>

theorem reloadFromDisk_version_mismatch:
  assumes "EmptyConfig m = Some mk"
      and "os_Stat fs (FilePath m) = (Inr fi, fs1)"
      and "\<not> FileInfo_eq (fileInfo m) (Some fi)"
      and "ioutil_ReadFile fs1 (FilePath m) = (Inr bs, fs2)"
      and "yaml_Unmarshal cl bs (mk ()) = (c1, None)"
      and "cfg m = Some cur"
      and "GetVersion cl cur \<noteq> GetVersion cl c1"
  shows "reloadFromDisk cl m fs =
           Some ((False, Some (VersionMismatch (GetVersion cl cur) (GetVersion cl c1))),
                 snd (writeToDisk cl m fs2 cur))
       \<and> cfg (fst (snd (writeToDisk cl m fs2 cur))) = Some cur
       \<and> (\<forall>out. yaml_Marshal cl cur = Inr out
                 \<and> fst (ioutil_WriteFile fs2 (FilePath m) out) = None \<longrightarrow>
               files (snd (snd (writeToDisk cl m fs2 cur))) (FilePath m)
                 = Some \<lparr>content = out, mtime = now fs2\<rparr>)"
proof -
  have "reloadFromDisk cl m fs =
          Some ((False, Some (VersionMismatch (GetVersion cl cur) (GetVersion cl c1))),
                snd (writeToDisk cl m fs2 cur))"
    using reloadFromDisk_decoded [OF assms(1-5)] assms(6,7) by simp
  moreover have "cfg (fst (snd (writeToDisk cl m fs2 cur))) = Some cur"
    using assms(6) by (simp add: writeToDisk_keeps_cfg)
  ultimately show ?thesis
    by (simp add: writeToDisk_written)
qed

text \<open>
  The scenario of the specification: version 3 in memory, a file of version 5 on disk.
  The poll returns the mismatch of 3 and 5, the file holds the version 3 content again
  and the manager still holds version 3.
\<close>

theorem reloadFromDisk_version_mismatch_witness:
  "GetVersion test_collab (cfg_of 3 [] 55) \<noteq> GetVersion test_collab (cfg_of 5 [] 55)
   \<and> reloadFromDisk test_collab (running_Manager (cfg_of 3 [] 55) (Some (fingerprint 0 2 7)))
         (test_fs (on_disk [5, 55] 9) 1 [] [])
       = Some ((False, Some (VersionMismatch 3 5)),
               running_Manager (cfg_of 3 [] 55) (Some (fingerprint 2 2 7)),
               test_fs (on_disk [3, 55] 7) 3 []
                 [OpStat ''yamlconf_test'', OpReadFile ''yamlconf_test'',
                  OpWriteFile ''yamlconf_test'' [3, 55], OpStat ''yamlconf_test''])"
proof -
  let ?m = "running_Manager (cfg_of 3 [] 55) (Some (fingerprint 0 2 7))"
  let ?p = "''yamlconf_test''"
  let ?disk = "on_disk [5, 55] 9"
  have h1: "EmptyConfig ?m = Some test_EmptyConfig"
    by (simp add: test_defs)
  have h2: "os_Stat (test_fs ?disk 1 [] []) (FilePath ?m)
              = (Inr (fingerprint 1 2 9),
                 test_fs ?disk 2 [] [OpStat ?p])"
    by (simp add: fs_defs test_defs)
  have h3: "\<not> FileInfo_eq (fileInfo ?m) (Some (fingerprint 1 2 9))"
    by (simp add: test_defs)
  have h4: "ioutil_ReadFile (test_fs ?disk 2 [] [OpStat ?p]) (FilePath ?m)
              = (Inr [5, 55], test_fs ?disk 2 [] [OpStat ?p, OpReadFile ?p])"
    by (simp add: fs_defs test_defs)
  have h5: "yaml_Unmarshal test_collab [5, 55] (test_EmptyConfig ()) = (cfg_of 5 [] 55, None)"
    by (simp add: test_defs)
  have h6: "cfg ?m = Some (cfg_of 3 [] 55)"
    by (simp add: test_defs)
  have h7: "GetVersion test_collab (cfg_of 3 [] 55) \<noteq> GetVersion test_collab (cfg_of 5 [] 55)"
    by (simp add: test_defs)
  from reloadFromDisk_version_mismatch [OF h1 h2 h3 h4 h5 h6 h7] h7
  show ?thesis
    by (simp add: writeToDisk_def fs_defs test_defs)
qed

text \<open>
  The claim as the specification states it fails when the write-back does not succeed.
  Version 3 in memory, version 5 on disk, and \<open>ioutil.WriteFile\<close> is refused: the load
  is rejected with the mismatch of 3 and 5, and the file still holds the version 5
  content, not the encoding of the authoritative configuration.
\<close>

theorem reloadFromDisk_version_mismatch_not_written:
  "cfg (running_Manager (cfg_of 3 [] 55) (Some (fingerprint 0 2 7))) = Some (cfg_of 3 [] 55)
   \<and> yaml_Marshal test_collab (cfg_of 3 [] 55) = Inr [3, 55]
   \<and> reloadFromDisk test_collab (running_Manager (cfg_of 3 [] 55) (Some (fingerprint 0 2 7)))
         (test_fs (on_disk [5, 55] 9) 1 [None, None, Some (Err ''permission denied'')] [])
       = Some ((False, Some (VersionMismatch 3 5)),
               running_Manager (cfg_of 3 [] 55) (Some (fingerprint 0 2 7)),
               test_fs (on_disk [5, 55] 9) 2 []
                 [OpStat ''yamlconf_test'', OpReadFile ''yamlconf_test'',
                  OpWriteFile ''yamlconf_test'' [3, 55]])
   \<and> map_option content
         (files (test_fs (on_disk [5, 55] 9) 2 []
                   [OpStat ''yamlconf_test'', OpReadFile ''yamlconf_test'',
                    OpWriteFile ''yamlconf_test'' [3, 55]]) ''yamlconf_test'')
       = Some [5, 55]
   \<and> map_option content
         (files (test_fs (on_disk [5, 55] 9) 2 []
                   [OpStat ''yamlconf_test'', OpReadFile ''yamlconf_test'',
                    OpWriteFile ''yamlconf_test'' [3, 55]]) ''yamlconf_test'')
       \<noteq> Some [3, 55]"
  by (simp add: reloadFromDisk_def writeToDisk_def fs_defs test_defs)

text \<open>
  Claim C10. When the decoded version differs from the authoritative one and the
  write-back \<open>writeToDisk(m.cfg)\<close> fails with an error \<open>we\<close>, the load still returns
  the version-mismatch error, which is not \<open>we\<close>: the result of the write-back is
  dropped. Unless the failure was that of the \<open>os.Stat\<close> after a completed write, the
  files are as they were before the write-back, so the file still holds the rejected
  content.
\<close>

theorem reloadFromDisk_overwrite_error_ignored:
  assumes "EmptyConfig m = Some mk"
      and "os_Stat fs (FilePath m) = (Inr fi, fs1)"
      and "\<not> FileInfo_eq (fileInfo m) (Some fi)"
      and "ioutil_ReadFile fs1 (FilePath m) = (Inr bs, fs2)"
      and "yaml_Unmarshal cl bs (mk ()) = (c1, None)"
      and "cfg m = Some cur"
      and "GetVersion cl cur \<noteq> GetVersion cl c1"
      and "writeToDisk cl m fs2 cur = (Some we, m', fs')"
  shows "reloadFromDisk cl m fs =
           Some ((False, Some (VersionMismatch (GetVersion cl cur) (GetVersion cl c1))), m', fs')
       \<and> we \<noteq> VersionMismatch (GetVersion cl cur) (GetVersion cl c1)
       \<and> ((\<forall>e. we \<noteq> StatFailed (FilePath m) e) \<longrightarrow> files fs' = files fs2)"
proof -
  have "reloadFromDisk cl m fs =
          Some ((False, Some (VersionMismatch (GetVersion cl cur) (GetVersion cl c1))), m', fs')"
    using reloadFromDisk_decoded [OF assms(1-5)] assms(6-8) by simp
  moreover have "we \<noteq> VersionMismatch (GetVersion cl cur) (GetVersion cl c1)"
    using writeToDisk_error_cases [OF assms(8)] by auto
  moreover have "(\<forall>e. we \<noteq> StatFailed (FilePath m) e) \<longrightarrow> files fs' = files fs2"
    using writeToDisk_error_cases [OF assms(8)] by auto
  ultimately show ?thesis by simp
qed

text \<open>
  Version 3 in memory, version 5 on disk, and the write of the write-back is refused:
  the load returns the mismatch of 3 and 5 and the file still holds version 5.
\<close>

theorem reloadFromDisk_overwrite_error_ignored_witness:
  "writeToDisk test_collab (running_Manager (cfg_of 3 [] 55) (Some (fingerprint 0 2 7)))
       (test_fs (on_disk [5, 55] 9) 2 [Some (Err ''permission denied'')]
          [OpStat ''yamlconf_test'', OpReadFile ''yamlconf_test''])
       (cfg_of 3 [] 55)
     = (Some (WriteFailed ''yamlconf_test'' (Err ''permission denied'')),
        running_Manager (cfg_of 3 [] 55) (Some (fingerprint 0 2 7)),
        test_fs (on_disk [5, 55] 9) 2 []
          [OpStat ''yamlconf_test'', OpReadFile ''yamlconf_test'',
           OpWriteFile ''yamlconf_test'' [3, 55]])
   \<and> reloadFromDisk test_collab (running_Manager (cfg_of 3 [] 55) (Some (fingerprint 0 2 7)))
         (test_fs (on_disk [5, 55] 9) 1
            [None, None, Some (Err ''permission denied'')] [])
       = Some ((False, Some (VersionMismatch 3 5)),
               running_Manager (cfg_of 3 [] 55) (Some (fingerprint 0 2 7)),
               test_fs (on_disk [5, 55] 9) 2 []
                 [OpStat ''yamlconf_test'', OpReadFile ''yamlconf_test'',
                  OpWriteFile ''yamlconf_test'' [3, 55]])"
proof -
  let ?m = "running_Manager (cfg_of 3 [] 55) (Some (fingerprint 0 2 7))"
  let ?p = "''yamlconf_test''"
  let ?disk = "on_disk [5, 55] 9"
  let ?e = "Some (Err ''permission denied'')"
  have h1: "EmptyConfig ?m = Some test_EmptyConfig"
    by (simp add: test_defs)
  have h2: "os_Stat (test_fs ?disk 1 [None, None, ?e] []) (FilePath ?m)
              = (Inr (fingerprint 1 2 9),
                 test_fs ?disk 2 [None, ?e] [OpStat ?p])"
    by (simp add: fs_defs test_defs)
  have h3: "\<not> FileInfo_eq (fileInfo ?m) (Some (fingerprint 1 2 9))"
    by (simp add: test_defs)
  have h4: "ioutil_ReadFile (test_fs ?disk 2 [None, ?e] [OpStat ?p]) (FilePath ?m)
              = (Inr [5, 55], test_fs ?disk 2 [?e] [OpStat ?p, OpReadFile ?p])"
    by (simp add: fs_defs test_defs)
  have h5: "yaml_Unmarshal test_collab [5, 55] (test_EmptyConfig ()) = (cfg_of 5 [] 55, None)"
    by (simp add: test_defs)
  have h6: "cfg ?m = Some (cfg_of 3 [] 55)"
    by (simp add: test_defs)
  have h7: "GetVersion test_collab (cfg_of 3 [] 55) \<noteq> GetVersion test_collab (cfg_of 5 [] 55)"
    by (simp add: test_defs)
  have h8: "writeToDisk test_collab ?m (test_fs ?disk 2 [?e] [OpStat ?p, OpReadFile ?p])
              (cfg_of 3 [] 55)
            = (Some (WriteFailed ?p (Err ''permission denied'')), ?m,
               test_fs ?disk 2 [] [OpStat ?p, OpReadFile ?p, OpWriteFile ?p [3, 55]])"
    by (simp add: writeToDisk_def fs_defs test_defs)
  from reloadFromDisk_overwrite_error_ignored [OF h1 h2 h3 h4 h5 h6 h7 h8] h8
  show ?thesis
    by (simp add: test_defs)
qed

text \<open>
  Claim C6. A disk load that decodes a configuration equal to the authoritative one
  (so of the same version) returns \<open>changed = false\<close> and no error and leaves the manager
  as it was: the authoritative configuration and the fingerprint are not replaced. The
  file poll branch of the loop then publishes nothing.
\<close>

theorem reloadFromDisk_same_content:
  assumes "EmptyConfig m = Some mk"
      and "os_Stat fs (FilePath m) = (Inr fi, fs1)"
      and "\<not> FileInfo_eq (fileInfo m) (Some fi)"
      and "ioutil_ReadFile fs1 (FilePath m) = (Inr bs, fs2)"
      and "yaml_Unmarshal cl bs (mk ()) = (c1, None)"
      and "cfg m = Some cur"
      and "GetVersion cl cur = GetVersion cl c1"
      and "cur = c1"
  shows "reloadFromDisk cl m fs = Some ((False, None), m, fs2)
       \<and> processUpdates_step cl m fs FilePoll
           = Some (\<lparr>reply = None, published = None, logged = None\<rparr>, m, fs2)"
proof -
  have r: "reloadFromDisk cl m fs = Some ((False, None), m, fs2)"
    using reloadFromDisk_decoded [OF assms(1-5)] assms(6-8) by simp
  then show ?thesis
    by (simp add: processUpdates_step_def)
qed

text \<open>
  The file was saved again with the content it had (a new modification time, 9): the
  load reads it, finds the authoritative configuration, and nothing is published.
\<close>

theorem reloadFromDisk_same_content_witness:
  "reloadFromDisk test_collab
       (running_Manager (cfg_of 3 [] 55) (Some (fingerprint 0 2 7)))
       (test_fs (on_disk [3, 55] 9) 1 [] [])
     = Some ((False, None),
             running_Manager (cfg_of 3 [] 55) (Some (fingerprint 0 2 7)),
             test_fs (on_disk [3, 55] 9) 2 []
               [OpStat ''yamlconf_test'', OpReadFile ''yamlconf_test''])
   \<and> map_option (published \<circ> fst)
         (processUpdates_step test_collab
            (running_Manager (cfg_of 3 [] 55) (Some (fingerprint 0 2 7)))
            (test_fs (on_disk [3, 55] 9) 1 [] []) FilePoll)
       = Some None"
proof -
  let ?p = "''yamlconf_test''"
  let ?m = "running_Manager (cfg_of 3 [] 55) (Some (fingerprint 0 2 7))"
  let ?disk = "on_disk [3, 55] 9"
  have h1: "EmptyConfig ?m = Some test_EmptyConfig"
    by (simp add: test_defs)
  have h2: "os_Stat (test_fs ?disk 1 [] []) (FilePath ?m)
              = (Inr (fingerprint 1 2 9),
                 test_fs ?disk 2 [] [OpStat ?p])"
    by (simp add: fs_defs test_defs)
  have h3: "\<not> FileInfo_eq (fileInfo ?m) (Some (fingerprint 1 2 9))"
    by (simp add: test_defs)
  have h4: "ioutil_ReadFile (test_fs ?disk 2 [] [OpStat ?p]) (FilePath ?m)
              = (Inr [3, 55], test_fs ?disk 2 [] [OpStat ?p, OpReadFile ?p])"
    by (simp add: fs_defs test_defs)
  have h5: "yaml_Unmarshal test_collab [3, 55] (test_EmptyConfig ()) = (cfg_of 3 [] 55, None)"
    by (simp add: test_defs)
  have h6: "cfg ?m = Some (cfg_of 3 [] 55)"
    by (simp add: test_defs)
  from reloadFromDisk_same_content [OF h1 h2 h3 h4 h5 h6 refl refl]
  show ?thesis
    by simp
qed

subsection \<open>The fingerprint check\<close>

text \<open>
  \<open>os.Stat\<close> returns a pointer to a structure of its own at each call, so the
  fingerprint it returns is never \<open>==\<close> to one taken before: in a state where the
  address of the last-known fingerprint was handed out earlier, the check of
  \<open>reloadFromDisk\<close> does not hold.
\<close>

lemma fresh_FileInfo_never_equal:
  assumes "os_Stat fs p = (Inr fi, fs1)"
      and "\<And>old. fileInfo m = Some old \<Longrightarrow> Ptr old < next_ptr fs"
  shows "\<not> FileInfo_eq (fileInfo m) (Some fi)"
proof (cases "fileInfo m")
  case None
  then show ?thesis by simp
next
  case (Some old)
  with assms(2) have "Ptr old < next_ptr fs" by simp
  with os_Stat_fresh [OF assms(1)] Some show ?thesis by simp
qed

text \<open>
  \<open>hasChangedOnDisk\<close>, which compares size and modification time, reports no change for
  the file of the next theorem.
\<close>

lemma hasChangedOnDisk_same_fingerprint:
  "hasChangedOnDisk
       (running_Manager (cfg_of 3 [] 55) (Some (fingerprint 0 2 7)))
       (test_fs (on_disk [3, 55] 7) 1 [] [])
     = Some (False, test_fs (on_disk [3, 55] 7) 2 [] [OpStat ''yamlconf_test''])"
  by (simp add: hasChangedOnDisk_def fs_defs test_defs)

text \<open>
  Claim C7, evaluated where the code departs from it. The manager holds the
  configuration of version 3 and the fingerprint (size 2, modification time 7) of the
  file, taken at address 0; the file is untouched: size 2, modification time 7. The
  load still calls \<open>ioutil.ReadFile\<close> (the log of the file system shows it) and decodes
  the content; it returns "no change" only because the decoded configuration equals
  the authoritative one. When the read fails, the same poll returns a read error.
\<close>

theorem reloadFromDisk_same_fingerprint_reads:
  "reloadFromDisk test_collab
       (running_Manager (cfg_of 3 [] 55) (Some (fingerprint 0 2 7)))
       (test_fs (on_disk [3, 55] 7) 1 [] [])
     = Some ((False, None),
             running_Manager (cfg_of 3 [] 55) (Some (fingerprint 0 2 7)),
             test_fs (on_disk [3, 55] 7) 2 []
               [OpStat ''yamlconf_test'', OpReadFile ''yamlconf_test''])
   \<and> reloadFromDisk test_collab
       (running_Manager (cfg_of 3 [] 55) (Some (fingerprint 0 2 7)))
       (test_fs (on_disk [3, 55] 7) 1 [None, Some (Err ''input/output error'')] [])
     = Some ((False, Some (ReadFailed ''yamlconf_test'' (Err ''input/output error''))),
             running_Manager (cfg_of 3 [] 55) (Some (fingerprint 0 2 7)),
             test_fs (on_disk [3, 55] 7) 2 []
               [OpStat ''yamlconf_test'', OpReadFile ''yamlconf_test''])"
  by (simp add: reloadFromDisk_def fs_defs test_defs)

section \<open>Saving\<close>

text \<open>Go's \<open>v + 1\<close> on an \<open>int\<close> below the largest one is the successor.\<close>

lemma goint_succ:
  fixes v :: goint
  assumes "sint v < 9223372036854775807"
  shows "sint (v + 1) = sint v + 1"
proof -
  have lo: "- (2 ^ 63) \<le> sint v"
    using sint_ge [of v] by simp
  have "signed_take_bit 63 (sint v + 1) = sint v + 1"
    using lo assms by (intro signed_take_bit_int_eq_self) simp_all
  then show ?thesis
    by (simp add: sint_word_add)
qed

text \<open>The first save of a manager that has no authoritative configuration.\<close>

lemma saveToDiskAndUpdate_first:
  assumes "cfg m = None"
  shows "saveToDiskAndUpdate cl m fs c =
           (case writeToDisk cl m fs (SetVersion cl 1 (SetVersion cl 0 (ApplyDefaults cl c))) of
              (None, m2, fs2) \<Rightarrow>
                ((True, None),
                 m2\<lparr>cfg := Some (SetVersion cl 1 (SetVersion cl 0 (ApplyDefaults cl c)))\<rparr>, fs2,
                 SetVersion cl 1 (SetVersion cl 0 (ApplyDefaults cl c)))
            | (Some e, m2, fs2) \<Rightarrow>
                ((False, Some e), m2, fs2, SetVersion cl 1 (SetVersion cl 0 (ApplyDefaults cl c))))"
proof -
  have same: "m\<lparr>cfg := None\<rparr> = m"
    using assms by (cases m) simp
  show ?thesis
    using assms
    by (simp add: saveToDiskAndUpdate_def Let_def same split: prod.splits option.splits)
qed

text \<open>
  When the candidate differs and \<open>writeToDisk\<close> fails, the save returns the error, and
  the authoritative configuration is the one from before with \<open>SetVersion(0)\<close> applied.
\<close>

lemma saveToDiskAndUpdate_failed_write:
  assumes "prev = (case cfg m of None \<Rightarrow> 0 | Some cur \<Rightarrow> GetVersion cl cur)"
      and "u = SetVersion cl (prev + 1) (SetVersion cl 0 (ApplyDefaults cl updated))"
      and "map_option (SetVersion cl 0) (cfg m) \<noteq> Some (SetVersion cl 0 (ApplyDefaults cl updated))"
      and "writeToDisk cl m fs u = (Some e, m2, fs2)"
  shows "saveToDiskAndUpdate cl m fs updated
           = ((False, Some e), m2\<lparr>cfg := map_option (SetVersion cl 0) (cfg m)\<rparr>, fs2, u)"
  using assms by (simp add: saveToDiskAndUpdate_def Let_def writeToDisk_cfg)

text \<open>
  Claim C2, evaluated where the code departs from it. The authoritative configuration
  has version 3 and is on disk, the candidate differs from it, and \<open>ioutil.WriteFile\<close>
  fails. The save returns the write error and the file is as it was, but the
  authoritative configuration is left with version 0: \<open>m.cfg.SetVersion(0)\<close> has run,
  and only the no-change path sets the version back.
\<close>

theorem saveToDiskAndUpdate_failed_write_zeroes_version:
  "cfg (running_Manager (cfg_of 3 [] 55) (Some (fingerprint 0 2 7))) = Some (cfg_of 3 [] 55)
   \<and> fst (saveToDiskAndUpdate test_collab
            (running_Manager (cfg_of 3 [] 55) (Some (fingerprint 0 2 7)))
            (test_fs (on_disk [3, 55] 7) 1 [Some (Err ''disk full'')] [])
            (cfg_of 3 ''4'' 4))
       = (False, Some (WriteFailed ''yamlconf_test'' (Err ''disk full'')))
   \<and> cfg (fst (snd (saveToDiskAndUpdate test_collab
            (running_Manager (cfg_of 3 [] 55) (Some (fingerprint 0 2 7)))
            (test_fs (on_disk [3, 55] 7) 1 [Some (Err ''disk full'')] [])
            (cfg_of 3 ''4'' 4))))
       = Some (cfg_of 0 [] 55)
   \<and> files (fst (snd (snd (saveToDiskAndUpdate test_collab
            (running_Manager (cfg_of 3 [] 55) (Some (fingerprint 0 2 7)))
            (test_fs (on_disk [3, 55] 7) 1 [Some (Err ''disk full'')] [])
            (cfg_of 3 ''4'' 4))))) ''yamlconf_test''
       = on_disk [3, 55] 7"
  by (simp add: saveToDiskAndUpdate_def writeToDisk_def fs_defs test_defs)

text \<open>
  Claim C3, as the code has it. When the candidate, after \<open>ApplyDefaults\<close> and with its
  version set to 0, equals the authoritative configuration \<open>cur\<close> with its version set
  to 0, the save returns \<open>changed = false\<close> and no error, calls no primitive of the file
  system (the file system is returned as it was), and sets the version of the
  authoritative configuration back to the version it had, so it is not incremented.
  The candidate is left with version 0. (\<open>GetVersion\<close> is assumed to return what
  \<open>SetVersion\<close> has set.)
\<close>

theorem saveToDiskAndUpdate_no_change:
  assumes "\<forall>v c. GetVersion cl (SetVersion cl v c) = v"
      and "cfg m = Some cur"
      and "SetVersion cl 0 cur = SetVersion cl 0 (ApplyDefaults cl updated)"
  shows "saveToDiskAndUpdate cl m fs updated =
           ((False, None),
            m\<lparr>cfg := Some (SetVersion cl (GetVersion cl cur) (SetVersion cl 0 cur))\<rparr>,
            fs,
            SetVersion cl 0 (ApplyDefaults cl updated))
         \<and> GetVersion cl (SetVersion cl (GetVersion cl cur) (SetVersion cl 0 cur)) = GetVersion cl cur
         \<and> GetVersion cl (SetVersion cl 0 (ApplyDefaults cl updated)) = 0"
  using assms by (simp add: saveToDiskAndUpdate_def Let_def)

text \<open>
  A candidate without \<open>I\<close>, which \<open>ApplyDefaults\<close> sets to 55, saved over the same
  content at version 3: no change, the manager keeps version 3.
\<close>

theorem saveToDiskAndUpdate_no_change_witness:
  "(\<forall>v c. GetVersion test_collab (SetVersion test_collab v c) = v)
   \<and> SetVersion test_collab 0 (cfg_of 3 [] 55)
       = SetVersion test_collab 0 (ApplyDefaults test_collab (cfg_of 3 [] 0))
   \<and> saveToDiskAndUpdate test_collab (running_Manager (cfg_of 3 [] 55) (Some (fingerprint 0 2 7)))
         (test_fs (on_disk [3, 55] 7) 1 [] []) (cfg_of 3 [] 0)
       = ((False, None), running_Manager (cfg_of 3 [] 55) (Some (fingerprint 0 2 7)),
          test_fs (on_disk [3, 55] 7) 1 [] [], cfg_of 0 [] 55)"
proof -
  let ?m = "running_Manager (cfg_of 3 [] 55) (Some (fingerprint 0 2 7))"
  have h1: "\<forall>v c. GetVersion test_collab (SetVersion test_collab v c) = v"
    by (simp add: test_defs)
  have h2: "cfg ?m = Some (cfg_of 3 [] 55)"
    by (simp add: test_defs)
  have h3: "SetVersion test_collab 0 (cfg_of 3 [] 55)
              = SetVersion test_collab 0 (ApplyDefaults test_collab (cfg_of 3 [] 0))"
    by (simp add: test_defs)
  from saveToDiskAndUpdate_no_change [OF h1 h2 h3] h1 h3
  show ?thesis
    by (simp add: test_defs)
qed

text \<open>
  The claim as the specification states it fails for the candidate: a candidate of
  version 3 with the content of the authoritative configuration comes out of the
  no-change save with version 0.
\<close>

theorem saveToDiskAndUpdate_no_change_candidate_version:
  "SetVersion test_collab 0 (cfg_of 3 [] 55)
     = SetVersion test_collab 0 (ApplyDefaults test_collab (cfg_of 3 [] 55))
   \<and> fst (saveToDiskAndUpdate test_collab
            (running_Manager (cfg_of 3 [] 55) (Some (fingerprint 0 2 7)))
            (test_fs (on_disk [3, 55] 7) 1 [] []) (cfg_of 3 [] 55))
       = (False, None)
   \<and> GetVersion test_collab (cfg_of 3 [] 55) = 3
   \<and> GetVersion test_collab
         (snd (snd (snd (saveToDiskAndUpdate test_collab
            (running_Manager (cfg_of 3 [] 55) (Some (fingerprint 0 2 7)))
            (test_fs (on_disk [3, 55] 7) 1 [] []) (cfg_of 3 [] 55)))))
       = 0
   \<and> GetVersion test_collab
         (snd (snd (snd (saveToDiskAndUpdate test_collab
            (running_Manager (cfg_of 3 [] 55) (Some (fingerprint 0 2 7)))
            (test_fs (on_disk [3, 55] 7) 1 [] []) (cfg_of 3 [] 55)))))
       \<noteq> GetVersion test_collab (cfg_of 3 [] 55)"
  by (simp add: saveToDiskAndUpdate_def test_defs Let_def)

text \<open>
  Claim C4, as the code has it. \<open>prev\<close> is the version of the authoritative
  configuration, 0 when there is none. When the candidate (after \<open>ApplyDefaults\<close>, versions
  set to 0) differs from the authoritative configuration and \<open>writeToDisk\<close> succeeds,
  the save returns \<open>changed = true\<close> and no error, the candidate \<open>u\<close> with the version
  \<open>prev + 1\<close> of Go's 64-bit \<open>int\<close> becomes the authoritative configuration, and
  its version read as an integer is one more than the previous one whenever that is
  below the largest \<open>int\<close>, \<open>2^63 - 1\<close>.
\<close>

theorem saveToDiskAndUpdate_changed:
  assumes "\<forall>v c. GetVersion cl (SetVersion cl v c) = v"
      and "prev = (case cfg m of None \<Rightarrow> 0 | Some cur \<Rightarrow> GetVersion cl cur)"
      and "u = SetVersion cl (prev + 1) (SetVersion cl 0 (ApplyDefaults cl updated))"
      and "map_option (SetVersion cl 0) (cfg m) \<noteq> Some (SetVersion cl 0 (ApplyDefaults cl updated))"
      and "writeToDisk cl m fs u = (None, m2, fs2)"
  shows "saveToDiskAndUpdate cl m fs updated = ((True, None), m2\<lparr>cfg := Some u\<rparr>, fs2, u)
       \<and> GetVersion cl u = prev + 1
       \<and> (sint prev < 9223372036854775807 \<longrightarrow> sint (GetVersion cl u) = sint prev + 1)"
proof -
  have "saveToDiskAndUpdate cl m fs updated = ((True, None), m2\<lparr>cfg := Some u\<rparr>, fs2, u)"
    using assms(2-5) by (simp add: saveToDiskAndUpdate_def Let_def writeToDisk_cfg)
  moreover have "GetVersion cl u = prev + 1"
    using assms(1,3) by simp
  ultimately show ?thesis
    by (simp add: goint_succ)
qed

text \<open>The programmatic update of \<open>TestNormal\<close>, from version 3: version 4 is written.\<close>

theorem saveToDiskAndUpdate_changed_witness:
  "(\<forall>v c. GetVersion test_collab (SetVersion test_collab v c) = v)
   \<and> saveToDiskAndUpdate test_collab (running_Manager (cfg_of 3 ''3'' 3) (Some (fingerprint 0 3 7)))
         (test_fs (on_disk [3, 3, 51] 7) 1 [] []) (cfg_of 3 ''4'' 4)
       = ((True, None),
          running_Manager (cfg_of 4 ''4'' 4) (Some (fingerprint 1 3 7)),
          test_fs (on_disk [4, 4, 52] 7) 2 []
            [OpWriteFile ''yamlconf_test'' [4, 4, 52], OpStat ''yamlconf_test''],
          cfg_of 4 ''4'' 4)
   \<and> sint (GetVersion test_collab (cfg_of 4 ''4'' 4)) = sint (3 :: goint) + 1"
proof -
  let ?m = "running_Manager (cfg_of 3 ''3'' 3) (Some (fingerprint 0 3 7))"
  let ?p = "''yamlconf_test''"
  let ?fs = "test_fs (on_disk [3, 3, 51] 7) 1 [] []"
  have h1: "\<forall>v c. GetVersion test_collab (SetVersion test_collab v c) = v"
    by (simp add: test_defs)
  have h2: "(3 :: goint) = (case cfg ?m of None \<Rightarrow> 0 | Some cur \<Rightarrow> GetVersion test_collab cur)"
    by (simp add: test_defs)
  have h3: "cfg_of 4 ''4'' 4
              = SetVersion test_collab (3 + 1)
                  (SetVersion test_collab 0 (ApplyDefaults test_collab (cfg_of 3 ''4'' 4)))"
    by (simp add: test_defs)
  have h4: "map_option (SetVersion test_collab 0) (cfg ?m)
              \<noteq> Some (SetVersion test_collab 0 (ApplyDefaults test_collab (cfg_of 3 ''4'' 4)))"
    by (simp add: test_defs)
  have h5: "writeToDisk test_collab ?m ?fs (cfg_of 4 ''4'' 4)
              = (None,
                 running_Manager (cfg_of 3 ''3'' 3) (Some (fingerprint 1 3 7)),
                 test_fs (on_disk [4, 4, 52] 7) 2 []
                   [OpWriteFile ?p [4, 4, 52], OpStat ?p])"
    by (simp add: writeToDisk_def fs_defs test_defs)
  from saveToDiskAndUpdate_changed [OF h1 h2 h3 h4 h5] h1
  show ?thesis
    by (simp add: running_Manager_def)
qed

text \<open>
  At the largest \<open>int\<close> the claim as the specification states it fails: the save
  succeeds and reports a change, and the new version is \<open>- 2^63\<close>, not greater than the
  previous one.
\<close>

theorem saveToDiskAndUpdate_version_wraps:
  "fst (saveToDiskAndUpdate test_collab
          (running_Manager (cfg_of 9223372036854775807 [] 55) (Some (fingerprint 0 2 7)))
          (test_fs (on_disk [255, 55] 7) 1 [] [])
          (cfg_of 9223372036854775807 ''4'' 4))
     = (True, None)
   \<and> cfg (fst (snd (saveToDiskAndUpdate test_collab
          (running_Manager (cfg_of 9223372036854775807 [] 55) (Some (fingerprint 0 2 7)))
          (test_fs (on_disk [255, 55] 7) 1 [] [])
          (cfg_of 9223372036854775807 ''4'' 4))))
     = Some (cfg_of (- 9223372036854775808) ''4'' 4)
   \<and> sint (GetVersion test_collab (cfg_of 9223372036854775807 [] 55)) = 9223372036854775807
   \<and> sint (GetVersion test_collab (cfg_of (- 9223372036854775808) ''4'' 4))
       = - 9223372036854775808
   \<and> \<not> sint (GetVersion test_collab (cfg_of 9223372036854775807 [] 55))
         < sint (GetVersion test_collab (cfg_of (- 9223372036854775808) ''4'' 4))"
  by (simp add: saveToDiskAndUpdate_def writeToDisk_def fs_defs test_defs Let_def)

section \<open>The update loop\<close>

text \<open>
  Claim C5. When the delta function, called on the structure that \<open>copy\<close> returns,
  returns an error \<open>e\<close>, the iteration sends exactly \<open>e\<close> on the delta's \<open>errCh\<close>,
  publishes nothing, and leaves the manager (with the authoritative configuration) and
  the file system as they were: what the delta function did to the copy is dropped.
\<close>

theorem processUpdates_delta_error:
  assumes "EmptyConfig m = Some mk"
      and "deepcopy_Copy cl (mk ()) (cfg m) = (updated, cerr)"
      and "deltaFn updated = (updated', Some e)"
  shows "processUpdates_step cl m fs (Delta deltaFn)
           = Some (\<lparr>reply = Some (Some e), published = None, logged = None\<rparr>, m, fs)"
  using assms by (simp add: processUpdates_step_def copy_def)

text \<open>
  A delta function that removes \<open>N\<close> from the copy and then fails: the caller gets its
  error and the manager keeps the configuration with its \<open>N\<close>.
\<close>

theorem processUpdates_delta_error_witness:
  "deepcopy_Copy test_collab (test_EmptyConfig ()) (Some (cfg_of 3 ''3'' 3)) = (cfg_of 3 ''3'' 3, None)
   \<and> failing_delta (cfg_of 3 ''3'' 3) = (\<lparr>Version = 3, N = None\<rparr>, Some (Err ''delta failed''))
   \<and> processUpdates_step test_collab (running_Manager (cfg_of 3 ''3'' 3) (Some (fingerprint 0 3 7)))
         (test_fs (on_disk [3, 3, 51] 7) 1 [] []) (Delta failing_delta)
       = Some (\<lparr>reply = Some (Some (Err ''delta failed'')), published = None, logged = None\<rparr>,
               running_Manager (cfg_of 3 ''3'' 3) (Some (fingerprint 0 3 7)),
               test_fs (on_disk [3, 3, 51] 7) 1 [] [])"
proof -
  let ?m = "running_Manager (cfg_of 3 ''3'' 3) (Some (fingerprint 0 3 7))"
  have h1: "EmptyConfig ?m = Some test_EmptyConfig"
    by (simp add: test_defs)
  have h2: "deepcopy_Copy test_collab (test_EmptyConfig ()) (cfg ?m) = (cfg_of 3 ''3'' 3, None)"
    by (simp add: test_defs)
  have h3: "failing_delta (cfg_of 3 ''3'' 3) = (\<lparr>Version = 3, N = None\<rparr>, Some (Err ''delta failed''))"
    by (simp add: test_defs)
  from processUpdates_delta_error [where deltaFn = failing_delta, OF h1 h2 h3] h2 h3
  show ?thesis
    by (simp add: running_Manager_def)
qed

text \<open>
  Claim C9. When \<open>deepcopy.Copy\<close> fails with an error \<open>ce\<close>, the iteration drops \<open>ce\<close>
  and calls the delta function on the structure \<open>updated\<close> as the failed copy left it;
  when the delta function returns nil, that structure goes through
  \<open>saveToDiskAndUpdate\<close>, whose result is the reply, and it is published as the
  authoritative configuration when the save reports a change.
\<close>

theorem processUpdates_copy_error_discarded:
  assumes "EmptyConfig m = Some mk"
      and "deepcopy_Copy cl (mk ()) (cfg m) = (updated, Some ce)"
      and "deltaFn updated = (updated', None)"
      and "saveToDiskAndUpdate cl m fs updated' = ((changed, serr), m1, fs1, u)"
  shows "processUpdates_step cl m fs (Delta deltaFn)
           = Some (\<lparr>reply = Some serr,
                    published = (if serr = None \<and> changed then Some (cfg m1) else None),
                    logged = None\<rparr>, m1, fs1)"
  using assms by (cases serr) (simp_all add: processUpdates_step_def copy_def)

text \<open>
  The authoritative configuration is version 3 with \<open>S = "3"\<close> and \<open>I = 3\<close>; the copy
  fails and leaves the empty structure of the factory. The delta function finds no \<open>N\<close>
  to change and returns nil; the defaulted empty structure is saved as version 4,
  becomes authoritative and is published, and the caller is told nil.
\<close>

theorem processUpdates_copy_error_discarded_witness:
  "deepcopy_Copy failing_copy_collab (test_EmptyConfig ()) (Some (cfg_of 3 ''3'' 3))
     = (\<lparr>Version = 0, N = None\<rparr>, Some (Err ''Unable to marshal src''))
   \<and> set_I_delta \<lparr>Version = 0, N = None\<rparr> = (\<lparr>Version = 0, N = None\<rparr>, None)
   \<and> processUpdates_step failing_copy_collab (running_Manager (cfg_of 3 ''3'' 3) (Some (fingerprint 0 3 7)))
         (test_fs (on_disk [3, 3, 51] 7) 1 [] []) (Delta set_I_delta)
       = Some (\<lparr>reply = Some None, published = Some (Some (cfg_of 4 [] 55)), logged = None\<rparr>,
               running_Manager (cfg_of 4 [] 55) (Some (fingerprint 1 2 7)),
               test_fs (on_disk [4, 55] 7) 2 []
                 [OpWriteFile ''yamlconf_test'' [4, 55], OpStat ''yamlconf_test''])"
proof -
  let ?m = "running_Manager (cfg_of 3 ''3'' 3) (Some (fingerprint 0 3 7))"
  let ?p = "''yamlconf_test''"
  let ?fs = "test_fs (on_disk [3, 3, 51] 7) 1 [] []"
  have h1: "EmptyConfig ?m = Some test_EmptyConfig"
    by (simp add: test_defs)
  have h2: "deepcopy_Copy failing_copy_collab (test_EmptyConfig ()) (cfg ?m)
              = (\<lparr>Version = 0, N = None\<rparr>, Some (Err ''Unable to marshal src''))"
    by (simp add: test_defs)
  have h3: "set_I_delta \<lparr>Version = 0, N = None\<rparr> = (\<lparr>Version = 0, N = None\<rparr>, None)"
    by (simp add: test_defs)
  have h4: "saveToDiskAndUpdate failing_copy_collab ?m ?fs \<lparr>Version = 0, N = None\<rparr>
              = ((True, None),
                 running_Manager (cfg_of 4 [] 55) (Some (fingerprint 1 2 7)),
                 test_fs (on_disk [4, 55] 7) 2 [] [OpWriteFile ?p [4, 55], OpStat ?p],
                 cfg_of 4 [] 55)"
    by (simp add: saveToDiskAndUpdate_def writeToDisk_def fs_defs test_defs Let_def)
  from processUpdates_copy_error_discarded [where deltaFn = set_I_delta, OF h1 h2 h3 h4] h2 h3
  show ?thesis
    by (simp add: running_Manager_def)
qed

section \<open>Start\<close>

text \<open>
  A load that fails in a manager without an authoritative configuration leaves the
  manager as it was.
\<close>

lemma reloadFromDisk_failure_without_cfg:
  assumes "cfg m = None"
      and "reloadFromDisk cl m fs = Some ((changed, Some e), m1, fs1)"
  shows "m1 = m"
  using assms
  by (auto simp: reloadFromDisk_def Let_def
           split: option.splits prod.splits sum.splits if_splits)

lemma defaultPollIntervals_fields:
  "EmptyConfig (defaultPollIntervals m) = EmptyConfig m"
  "FilePath (defaultPollIntervals m) = FilePath m"
  "cfg (defaultPollIntervals m) = cfg m"
  "fileInfo (defaultPollIntervals m) = fileInfo m"
  by (simp_all add: defaultPollIntervals_def Let_def)

text \<open>
  Claim C8. \<open>Start\<close> on a manager with a factory and a file path and no authoritative
  configuration yet (a manager that was not started before), whose initial load fails
  with an error \<open>e\<close>. \<open>u\<close> is the structure of the factory after \<open>ApplyDefaults\<close> (run
  by \<open>Start\<close> and again by the save) with version 1. \<open>Start\<close> returns an error exactly
  when \<open>writeToDisk\<close> of \<open>u\<close> fails, and then that error, not \<open>e\<close>. When the write
  succeeds \<open>Start\<close> returns nil, \<open>u\<close> is the authoritative configuration, its version
  is 1, and the file holds its encoding. (\<open>GetVersion\<close> is assumed to return what
  \<open>SetVersion\<close> has set.)
\<close>

theorem Start_load_failure:
  assumes "EmptyConfig m = Some mk"
      and "FilePath m \<noteq> []"
      and "cfg m = None"
      and "\<forall>v c. GetVersion cl (SetVersion cl v c) = v"
      and "loadFromDisk cl (defaultPollIntervals m) fs = Some (Some e, m1, fs1)"
      and "u = SetVersion cl 1 (SetVersion cl 0 (ApplyDefaults cl (ApplyDefaults cl (mk ()))))"
  shows "m1 = defaultPollIntervals m
       \<and> GetVersion cl u = 1
       \<and> (\<forall>e' m2 fs2. writeToDisk cl m1 fs1 u = (Some e', m2, fs2) \<longrightarrow>
             Start cl m fs = Some (Some e', m2, fs2))
       \<and> (\<forall>m2 fs2. writeToDisk cl m1 fs1 u = (None, m2, fs2) \<longrightarrow>
             Start cl m fs = Some (None, m2\<lparr>cfg := Some u\<rparr>, fs2)
             \<and> (\<exists>out. yaml_Marshal cl u = Inr out
                   \<and> files fs2 (FilePath m) = Some \<lparr>content = out, mtime = now fs1\<rparr>))"
proof -
  obtain changed where r:
    "reloadFromDisk cl (defaultPollIntervals m) fs = Some ((changed, Some e), m1, fs1)"
    using assms(5) by (auto simp: loadFromDisk_def)
  have m1: "m1 = defaultPollIntervals m"
    using reloadFromDisk_failure_without_cfg [OF _ r] assms(3)
    by (simp add: defaultPollIntervals_fields)
  have c1: "cfg m1 = None"
    using m1 assms(3) by (simp add: defaultPollIntervals_fields)
  have p1: "FilePath m1 = FilePath m"
    using m1 by (simp add: defaultPollIntervals_fields)
  have v: "GetVersion cl u = 1"
    using assms(4,6) by simp
  have s: "Start cl m fs =
             (case saveToDiskAndUpdate cl m1 fs1 (ApplyDefaults cl (mk ())) of
                ((changed, serr), m2, fs2, c') \<Rightarrow> Some (serr, m2, fs2))"
    using assms(1,2,5) by (simp add: Start_def Let_def split: prod.splits)
  have err: "Start cl m fs = Some (Some e', m2, fs2)"
    if "writeToDisk cl m1 fs1 u = (Some e', m2, fs2)" for e' m2 fs2
    using s that assms(6) by (simp add: saveToDiskAndUpdate_first [OF c1])
  have ok: "Start cl m fs = Some (None, m2\<lparr>cfg := Some u\<rparr>, fs2)
            \<and> (\<exists>out. yaml_Marshal cl u = Inr out
                  \<and> files fs2 (FilePath m) = Some \<lparr>content = out, mtime = now fs1\<rparr>)"
    if "writeToDisk cl m1 fs1 u = (None, m2, fs2)" for m2 fs2
    using s that assms(6) writeToDisk_ok [OF that] p1
    by (simp add: saveToDiskAndUpdate_first [OF c1])
  from m1 v err ok show ?thesis
    by blast
qed

text \<open>
  The start of \<open>TestNormal\<close> against a path with no file: the load fails at \<open>os.Stat\<close>,
  \<open>Start\<close> returns nil, the file holds version 1 with \<open>I = 55\<close>, and that is the
  authoritative configuration.
\<close>

theorem Start_load_failure_witness:
  "loadFromDisk test_collab (defaultPollIntervals test_Manager) (test_fs None 0 [] [])
     = Some (Some (StatConfigFailed ''yamlconf_test'' (Err ''no such file or directory'')),
             defaultPollIntervals test_Manager, test_fs None 0 [] [OpStat ''yamlconf_test''])
   \<and> Start test_collab test_Manager (test_fs None 0 [] [])
       = Some (None,
               running_Manager (cfg_of 1 [] 55) (Some (fingerprint 0 2 7)),
               test_fs (on_disk [1, 55] 7) 1 []
                 [OpStat ''yamlconf_test'', OpWriteFile ''yamlconf_test'' [1, 55],
                  OpStat ''yamlconf_test''])
   \<and> GetVersion test_collab (cfg_of 1 [] 55) = 1"
proof -
  let ?p = "''yamlconf_test''"
  have h1: "EmptyConfig test_Manager = Some test_EmptyConfig"
    by (simp add: test_defs)
  have h2: "FilePath test_Manager \<noteq> []"
    by (simp add: test_defs)
  have h3: "cfg test_Manager = None"
    by (simp add: test_defs)
  have h4: "\<forall>v c. GetVersion test_collab (SetVersion test_collab v c) = v"
    by (simp add: test_defs)
  have h5: "loadFromDisk test_collab (defaultPollIntervals test_Manager) (test_fs None 0 [] [])
              = Some (Some (StatConfigFailed ?p (Err ''no such file or directory'')),
                      defaultPollIntervals test_Manager, test_fs None 0 [] [OpStat ?p])"
    by (simp add: loadFromDisk_def reloadFromDisk_def defaultPollIntervals_def fs_defs test_defs)
  have h6: "cfg_of 1 [] 55
              = SetVersion test_collab 1 (SetVersion test_collab 0
                  (ApplyDefaults test_collab (ApplyDefaults test_collab (test_EmptyConfig ()))))"
    by (simp add: test_defs)
  have h7: "writeToDisk test_collab (defaultPollIntervals test_Manager)
              (test_fs None 0 [] [OpStat ?p]) (cfg_of 1 [] 55)
            = (None,
               (defaultPollIntervals test_Manager)
                 \<lparr>fileInfo := Some (fingerprint 0 2 7)\<rparr>,
               test_fs (on_disk [1, 55] 7) 1 []
                 [OpStat ?p, OpWriteFile ?p [1, 55], OpStat ?p])"
    by (simp add: writeToDisk_def defaultPollIntervals_def fs_defs test_defs)
  from Start_load_failure [OF h1 h2 h3 h4 h5 h6] h5 h7
  show ?thesis
    by (simp add: defaultPollIntervals_def test_defs)
qed

end
